theory Spec2Isabelle
  imports Complex_Main
begin

section \<open>The game loop of \<^verbatim>\<open>js/engine.js\<close>\<close>

text \<open>
  The engine is a closure over the canvas context \<^verbatim>\<open>ctx\<close>, the variable
  \<^verbatim>\<open>lastTime\<close> and the global object \<^verbatim>\<open>game\<close>. Its four functions
  \<^verbatim>\<open>main\<close>, \<^verbatim>\<open>init\<close>, \<^verbatim>\<open>updateEntities\<close> and \<^verbatim>\<open>render\<close> are embedded
  as functions on an explicit world: the game object, the clock variable and the log of
  every call the engine makes on the canvas, on the page and on the objects of
  \<^verbatim>\<open>app.js\<close>, in the order the calls are made.
\<close>

subsection \<open>Objects read by the engine\<close>

text \<open>
  Enemies are opaque to the engine (type \<open>'e\<close>). Of the player it reads \<^verbatim>\<open>sprite\<close>;
  the player's other properties are the opaque \<open>props\<close>. Of a level it reads
  \<^verbatim>\<open>enemies\<close>, of the selector \<^verbatim>\<open>characters\<close> and of each character
  \<^verbatim>\<open>sprite\<close> (here \<open>sprite_chr\<close>, the name \<open>sprite\<close> being the player's field).
\<close>

record 'a Player =
  sprite :: string
  props :: 'a

record 'e Level =
  enemies :: "'e list"

record Character =
  sprite_chr :: string

record Selector =
  characters :: "Character list"

record ('e, 'a) Game =
  state :: string
  lvl :: int
  lives :: int
  player :: "'a Player"
  levels :: "'e Level list"
  selector :: Selector

subsection \<open>Calls made by the engine\<close>

text \<open>
  \<open>Resources_get s\<close> is the drawable handle that \<^verbatim>\<open>Resources.get(s)\<close> returns; the
  asset provider is a collaborator, so the handle is kept symbolic.
\<close>

datatype image = Resources_get string

text \<open>
  One constructor per call or property assignment of the source: the canvas context
  (\<^verbatim>\<open>beginPath\<close>, \<^verbatim>\<open>rect\<close>, \<^verbatim>\<open>fillStyle =\<close>, \<^verbatim>\<open>fill\<close>, \<^verbatim>\<open>font =\<close>,
  \<^verbatim>\<open>textAlign =\<close>, \<^verbatim>\<open>fillText\<close>, \<^verbatim>\<open>drawImage\<close>), the methods of the
  \<^verbatim>\<open>app.js\<close> objects, each with its receiver (and \<^verbatim>\<open>dt\<close> where one is passed),
  the jQuery \<^verbatim>\<open>css\<close> call, \<^verbatim>\<open>game.resetGame()\<close>,
  \<^verbatim>\<open>win.requestAnimationFrame(main)\<close>, and the two calls \<^verbatim>\<open>update(dt)\<close> and
  \<^verbatim>\<open>render()\<close> that \<^verbatim>\<open>main\<close> makes.
\<close>

datatype ('e, 'a) event =
    BeginPath
  | Rect int int int int
  | FillStyle string
  | Fill
  | Font string
  | TextAlign string
  | FillText string int int
  | DrawImage image int int
  | LevelRender "'e Level"
  | EnemyRender 'e
  | PlayerRender "'a Player"
  | SelectorRender Selector
  | EnemyUpdate real 'e
  | PlayerUpdate "'a Player"
  | Css string string string
  | ResetGame
  | RequestAnimationFrame
  | CallUpdate real
  | CallRender

record ('e, 'a) world =
  game :: "('e, 'a) Game"
  lastTime :: int
  events :: "('e, 'a) event list"

text \<open>
  The methods of \<^verbatim>\<open>app.js\<close> that change data are parameters of the model:
  \<^verbatim>\<open>enemy.update(dt)\<close> and \<^verbatim>\<open>player.update()\<close> act on their receiver,
  \<^verbatim>\<open>game.resetGame()\<close> on the game object. The \<^verbatim>\<open>render\<close> methods only draw and
  are recorded in the log. This is an assumption on \<^verbatim>\<open>app.js\<close>: an update method
  that assigned to \<^verbatim>\<open>game.state\<close> or \<^verbatim>\<open>game.lvl\<close> is outside the model. What is
  proved about \<^verbatim>\<open>main\<close> and \<^verbatim>\<open>init\<close> below does not use it: it speaks of the
  frames that return and of the frames that throw, whichever they are.
\<close>

record ('e, 'a) app =
  Enemy_update :: "real \<Rightarrow> 'e \<Rightarrow> 'e"
  Player_update :: "'a Player \<Rightarrow> 'a Player"
  resetGame :: "('e, 'a) Game \<Rightarrow> ('e, 'a) Game"

subsection \<open>Exceptions\<close>

text \<open>
  Reading a property of \<^verbatim>\<open>undefined\<close> throws a \<^verbatim>\<open>TypeError\<close>. Nothing in the
  engine catches it, so it ends the running function and its callers; what was done
  before stays done.
\<close>

datatype error = TypeError

datatype 'w outcome = Done 'w | Threw error 'w

fun final :: "'w outcome \<Rightarrow> 'w" where
  "final (Done w) = w"
| "final (Threw e w) = w"

fun thrown :: "'w outcome \<Rightarrow> error option" where
  "thrown (Done w) = None"
| "thrown (Threw e w) = Some e"

definition and_then :: "'w outcome \<Rightarrow> ('w \<Rightarrow> 'w outcome) \<Rightarrow> 'w outcome" where
  "and_then r f = (case r of Done w \<Rightarrow> f w | Threw e w \<Rightarrow> Threw e w)"

subsection \<open>JavaScript values\<close>

text \<open>
  \<^verbatim>\<open>xs[i]\<close> on an array is \<^verbatim>\<open>undefined\<close> (here \<open>None\<close>) unless \<open>i\<close> is an index
  of the array.
\<close>

definition index :: "'x list \<Rightarrow> int \<Rightarrow> 'x option" where
  "index xs i = (if 0 \<le> i \<and> i < int (length xs) then Some (xs ! nat i) else None)"

text \<open>
  String concatenation \<^verbatim>\<open>s + n\<close> converts the integer \<open>n\<close> to its decimal numeral.
  This is what JavaScript prints for \<open>\<bar>n\<bar> < 10^21\<close>; from there on it prints an
  exponent form, which \<open>toString\<close> does not follow. It is used at \<open>1\<close>, \<open>2\<close> and
  \<open>3\<close> only.
\<close>

definition digit :: "nat \<Rightarrow> char" where
  "digit n = ''0123456789'' ! n"

fun digits :: "nat \<Rightarrow> string" where
  "digits n = (if n < 10 then [digit n] else digits (n div 10) @ [digit (n mod 10)])"

declare digits.simps [simp del]

definition toString :: "int \<Rightarrow> string" where
  "toString i = (if i < 0 then CHR ''-'' # digits (nat (- i)) else digits (nat i))"

subsection \<open>The log\<close>

definition emit :: "('e, 'a) event list \<Rightarrow> ('e, 'a) world \<Rightarrow> ('e, 'a) world" where
  "emit es w = w\<lparr>events := events w @ es\<rparr>"

text \<open>What a run has added to the log of the world \<open>w\<close> it started from.\<close>

definition added :: "('e, 'a) world \<Rightarrow> ('e, 'a) world outcome \<Rightarrow> ('e, 'a) event list" where
  "added w r = drop (length (events w)) (events (final r))"

text \<open>The sprites drawn, in order, each with its position.\<close>

fun sprites :: "('e, 'a) event list \<Rightarrow> (image \<times> int \<times> int) list" where
  "sprites [] = []"
| "sprites (DrawImage im x y # es) = (im, x, y) # sprites es"
| "sprites (e # es) = sprites es"

text \<open>The calls of \<^verbatim>\<open>update\<close> and \<^verbatim>\<open>render\<close> made by \<^verbatim>\<open>main\<close>, in order.\<close>

fun passes :: "('e, 'a) event list \<Rightarrow> ('e, 'a) event list" where
  "passes [] = []"
| "passes (CallUpdate dt # es) = CallUpdate dt # passes es"
| "passes (CallRender # es) = CallRender # passes es"
| "passes (e # es) = passes es"

subsection \<open>\<^verbatim>\<open>updateEntities\<close> and \<^verbatim>\<open>update\<close>\<close>

text \<open>
  \<^verbatim>\<open>enemies.forEach(function(enemy) { enemy.update(dt); })\<close>: the enemies after the
  loop and the calls made, in the order of the array.
\<close>

primrec forEach_update ::
  "(real \<Rightarrow> 'e \<Rightarrow> 'e) \<Rightarrow> real \<Rightarrow> 'e list \<Rightarrow> 'e list \<times> ('e, 'a) event list" where
  "forEach_update f dt [] = ([], [])"
| "forEach_update f dt (enemy # rest) =
     (case forEach_update f dt rest of
        (rest', calls) \<Rightarrow> (f dt enemy # rest', EnemyUpdate dt enemy # calls))"

definition updateEntities ::
  "('e, 'a) app \<Rightarrow> real \<Rightarrow> ('e, 'a) world \<Rightarrow> ('e, 'a) world outcome" where
  "updateEntities app dt w =
     (if state (game w) = ''game'' then
        (case index (levels (game w)) (lvl (game w)) of
           None \<Rightarrow> Threw TypeError w
         | Some level \<Rightarrow>
             (case forEach_update (Enemy_update app) dt (enemies level) of
                (enemies', calls) \<Rightarrow>
                  let w1 = emit calls
                        (w\<lparr>game := (game w)\<lparr>levels :=
                           (levels (game w))[nat (lvl (game w)) :=
                              level\<lparr>enemies := enemies'\<rparr>]\<rparr>\<rparr>);
                      p = player (game w1)
                  in Done (emit [PlayerUpdate p]
                        (w1\<lparr>game := (game w1)\<lparr>player := Player_update app p\<rparr>\<rparr>))))
      else Done w)"

definition update ::
  "('e, 'a) app \<Rightarrow> real \<Rightarrow> ('e, 'a) world \<Rightarrow> ('e, 'a) world outcome" where
  "update app dt w = updateEntities app dt w"

subsection \<open>\<^verbatim>\<open>render\<close>\<close>

text \<open>
  \<^verbatim>\<open>for (i = 0; i < chr.length; i++) ctx.drawImage(Resources.get(chr[i]['sprite']), ...)\<close>
\<close>

function draw_characters ::
  "Character list \<Rightarrow> nat \<Rightarrow> ('e, 'a) world \<Rightarrow> ('e, 'a) world" where
  "draw_characters chr i w =
     (if i < length chr then
        draw_characters chr (i + 1)
          (emit [DrawImage (Resources_get (sprite_chr (chr ! i)))
                   (int i * 101 + 50) (3 * 83 - 20)] w)
      else w)"
  by pat_completeness auto
termination
  by (relation "measure (\<lambda>(chr, i, w). length chr - i)") auto

declare draw_characters.simps [simp del]

definition background :: "('e, 'a) event list" where
  "background = [BeginPath, Rect 0 0 505 606, FillStyle ''white'', Fill]"

definition render :: "('e, 'a) world \<Rightarrow> ('e, 'a) world outcome" where
  "render w =
     (let w0 = emit background w; g = game w0 in
      if state g = ''game'' then
        (case index (levels g) (lvl g) of
           None \<Rightarrow> Threw TypeError w0
         | Some level \<Rightarrow>
             let w1 = emit [LevelRender level] w0 in
             (case index (levels g) (lvl g) of
                None \<Rightarrow> Threw TypeError w1
              | Some level' \<Rightarrow>
                  Done (emit
                    (map EnemyRender (enemies level') @
                     [PlayerRender (player g),
                      Font ''bold 20pt Calibri'',
                      TextAlign ''center'',
                      FillStyle ''black'',
                      FillText (''Lives: '' @ toString (lives g)) 125 37,
                      FillText ((''Level: '' @ toString (lvl g)) @ toString 1) 375 37])
                    w1)))
      else if state g = ''start'' then
        Done (emit
          [Font ''bold 20pt Calibri'',
           TextAlign ''center'',
           FillStyle ''black'',
           FillText ''Select Your Heroine!'' 252 100,
           Font ''bold 14pt Calibri'',
           FillText ''Press Space or Enter to Begin'' 252 160]
          (draw_characters (characters (selector g)) 0
             (emit [SelectorRender (selector g)] w0)))
      else if state g = ''win'' then
        Done (emit
          [DrawImage (Resources_get (sprite (player g))) (101 + 50) (3 * 83 - 20),
           DrawImage (Resources_get ''images/char-boy.png'') (202 + 50) (3 * 83 - 20),
           DrawImage (Resources_get ''images/Heart.png'') (151 + 50) (3 * 83 - 20),
           Font ''bold 20pt Calibri'',
           TextAlign ''center'',
           FillStyle ''black'',
           FillText ''You Win!'' 252 100,
           Font ''bold 14pt Calibri'',
           FillText ''Press Space or Enter to Restart'' 252 160]
          w0)
      else if state g = ''over'' then
        Done (emit
          [Font ''bold 20pt Calibri'',
           TextAlign ''center'',
           FillStyle ''black'',
           FillText ''Game Over!'' 252 100,
           Font ''bold 14pt Calibri'',
           FillText ''Press Space or Enter to Restart'' 252 160]
          w0)
      else Done w0)"

subsection \<open>\<^verbatim>\<open>main\<close> and \<^verbatim>\<open>init\<close>\<close>

text \<open>
  \<open>now\<close> is the value \<^verbatim>\<open>Date.now()\<close> returns in this call of \<^verbatim>\<open>main\<close>, in
  milliseconds; the difference \<^verbatim>\<open>now - lastTime\<close> of two such values is exact.
  The division in \<^verbatim>\<open>(now - lastTime) / 1000.0\<close> is the division of doubles, which
  rounds: it is the parameter \<open>fdiv\<close>, of which nothing is assumed.
  \<^verbatim>\<open>requestAnimationFrame\<close> registers the next call and returns: one call of
  \<^verbatim>\<open>main\<close> is one frame.
\<close>

definition main ::
  "(real \<Rightarrow> real \<Rightarrow> real) \<Rightarrow> ('e, 'a) app \<Rightarrow> int \<Rightarrow> ('e, 'a) world \<Rightarrow>
     ('e, 'a) world outcome" where
  "main fdiv app now w =
     (let dt = fdiv (real_of_int (now - lastTime w)) 1000 in
      and_then (update app dt (emit [CallUpdate dt] w)) (\<lambda>w1.
      and_then (render (emit [CallRender] w1)) (\<lambda>w2.
      Done (emit [RequestAnimationFrame] (w2\<lparr>lastTime := now\<rparr>)))))"

text \<open>
  \<open>t0\<close> is the value \<^verbatim>\<open>Date.now()\<close> returns in \<^verbatim>\<open>init\<close>, \<open>now\<close> the value it
  returns in the call of \<^verbatim>\<open>main\<close> that \<^verbatim>\<open>init\<close> makes.
\<close>

definition init ::
  "(real \<Rightarrow> real \<Rightarrow> real) \<Rightarrow> ('e, 'a) app \<Rightarrow> int \<Rightarrow> int \<Rightarrow> ('e, 'a) world \<Rightarrow>
     ('e, 'a) world outcome" where
  "init fdiv app t0 now w =
     (let w1 = w\<lparr>lastTime := t0\<rparr>;
          w2 = emit [Css ''#game-area'' ''display'' ''block''] w1;
          w3 = (emit [ResetGame] w2)\<lparr>game := resetGame app (game w2)\<rparr>
      in main fdiv app now w3)"

subsection \<open>Notions used in the statements\<close>

text \<open>The strings drawn by \<^verbatim>\<open>fillText\<close>, in order.\<close>

fun texts :: "('e, 'a) event list \<Rightarrow> string list" where
  "texts [] = []"
| "texts (FillText s x y # es) = s # texts es"
| "texts (e # es) = texts es"

text \<open>The same world with another level index and other levels.\<close>

definition relevel :: "int \<Rightarrow> 'e Level list \<Rightarrow> ('e, 'a) world \<Rightarrow> ('e, 'a) world" where
  "relevel i ls w = w\<lparr>game := (game w)\<lparr>lvl := i, levels := ls\<rparr>\<rparr>"

subsection \<open>A concrete game\<close>

text \<open>
  An instance for closed examples: an enemy is its horizontal position and moves by
  \<open>100 * dt\<close>, the player counts its updates, three levels, the five characters of the
  selector. It stands for no particular \<^verbatim>\<open>app.js\<close>.
\<close>

definition demo_app :: "(real, nat) app" where
  "demo_app =
     \<lparr>Enemy_update = (\<lambda>dt x. x + 100 * dt),
      Player_update = (\<lambda>p. p\<lparr>props := Suc (props p)\<rparr>),
      resetGame = (\<lambda>g. g\<lparr>state := ''start'', lvl := 0, lives := 3\<rparr>)\<rparr>"

text \<open>
  The division of doubles where its result is exact: \<open>500 / 1000\<close> and
  \<open>- 500 / 1000\<close> are the doubles \<open>1 / 2\<close> and \<open>- (1 / 2)\<close>, the only quotients
  taken with it below.
\<close>

definition demo_fdiv :: "real \<Rightarrow> real \<Rightarrow> real" where
  "demo_fdiv x y = x / y"

text \<open>
  An \<^verbatim>\<open>app.js\<close> whose \<^verbatim>\<open>resetGame\<close> starts the game at once, with no level
  built yet.
\<close>

definition bare_app :: "(real, nat) app" where
  "bare_app =
     \<lparr>Enemy_update = (\<lambda>dt x. x + 100 * dt),
      Player_update = (\<lambda>p. p\<lparr>props := Suc (props p)\<rparr>),
      resetGame = (\<lambda>g. g\<lparr>state := ''game'', lvl := 0, lives := 3, levels := []\<rparr>)\<rparr>"

definition demo_world :: "string \<Rightarrow> int \<Rightarrow> (real, nat) world" where
  "demo_world s l =
     \<lparr>game = \<lparr>state = s, lvl = l, lives = 3,
        player = \<lparr>sprite = ''images/char-cat-girl.png'', props = 0\<rparr>,
        levels = [\<lparr>enemies = []\<rparr>, \<lparr>enemies = [10]\<rparr>, \<lparr>enemies = [0, 50]\<rparr>],
        selector = \<lparr>characters =
          [\<lparr>sprite_chr = ''images/char-boy.png''\<rparr>,
           \<lparr>sprite_chr = ''images/char-cat-girl.png''\<rparr>,
           \<lparr>sprite_chr = ''images/char-horn-girl.png''\<rparr>,
           \<lparr>sprite_chr = ''images/char-pink-girl.png''\<rparr>,
           \<lparr>sprite_chr = ''images/char-princess-girl.png''\<rparr>]\<rparr>\<rparr>,
      lastTime = 0, events = []\<rparr>"

section \<open>Properties\<close>

subsection \<open>The log and its projections\<close>

lemma emit_simps [simp]:
  "game (emit es w) = game w"
  "lastTime (emit es w) = lastTime w"
  "events (emit es w) = events w @ es"
  by (simp_all add: emit_def)

lemma emit_emit: "emit bs (emit as w) = emit (as @ bs) w"
  by (simp add: emit_def)

lemma added_Done_emit [simp]: "added w (Done (emit es w)) = es"
  by (simp add: added_def)

lemma added_Threw_emit [simp]: "added w (Threw e (emit es w)) = es"
  by (simp add: added_def)

lemma sprites_append: "sprites (xs @ ys) = sprites xs @ sprites ys"
  by (induction xs rule: sprites.induct) simp_all

lemma texts_append: "texts (xs @ ys) = texts xs @ texts ys"
  by (induction xs rule: texts.induct) simp_all

lemma passes_append: "passes (xs @ ys) = passes xs @ passes ys"
  by (induction xs rule: passes.induct) simp_all

lemma texts_EnemyRender [simp]: "texts (map EnemyRender es) = []"
  by (induction es) simp_all

lemma passes_EnemyRender [simp]: "passes (map EnemyRender es) = []"
  by (induction es) simp_all

lemma passes_EnemyUpdate [simp]: "passes (map (EnemyUpdate dt) es) = []"
  by (induction es) simp_all

lemma toString_digit:
  "toString 1 = ''1''" "toString 2 = ''2''" "toString 3 = ''3''"
  by (simp_all add: toString_def digits.simps digit_def)

lemma forEach_update_map:
  "forEach_update f dt es = (map (f dt) es, map (EnemyUpdate dt) es)"
  by (induction es) simp_all

lemma draw_characters_emit:
  "draw_characters chr i w =
     emit (map (\<lambda>k. DrawImage (Resources_get (sprite_chr (chr ! k))) (int k * 101 + 50) (3 * 83 - 20))
            [i..<length chr]) w"
proof (induction chr i w rule: draw_characters.induct)
  case (1 chr i w)
  show ?case
  proof (cases "i < length chr")
    case True
    then have "[i..<length chr] = i # [i + 1..<length chr]"
      by (simp add: upt_conv_Cons)
    with True 1 show ?thesis
      by (subst draw_characters.simps) (simp add: emit_emit)
  next
    case False
    then show ?thesis
      by (subst draw_characters.simps) (simp add: emit_def)
  qed
qed

lemma passes_DrawImage [simp]: "passes (map (\<lambda>k. DrawImage (f k) (g k) (h k)) ks) = []"
  by (induction ks) simp_all

lemma sprites_DrawImage [simp]:
  "sprites (map (\<lambda>k. DrawImage (f k) (g k) (h k)) ks) = map (\<lambda>k. (f k, g k, h k)) ks"
  by (induction ks) simp_all

lemma sprites_EnemyRender [simp]: "sprites (map EnemyRender es) = []"
  by (induction es) simp_all

subsection \<open>What \<^verbatim>\<open>render\<close> does in each state\<close>

lemma render_game:
  assumes "state (game w) = ''game''" and "index (levels (game w)) (lvl (game w)) = Some level"
  shows "render w = Done (emit (background @ LevelRender level # map EnemyRender (enemies level) @
                      [PlayerRender (player (game w)),
                      Font ''bold 20pt Calibri'',
                      TextAlign ''center'',
                      FillStyle ''black'',
                      FillText (''Lives: '' @ toString (lives (game w))) 125 37,
                      FillText ((''Level: '' @ toString (lvl (game w))) @ toString 1) 375 37]) w)"
  using assms by (simp add: render_def Let_def emit_emit)

lemma render_game_undefined:
  assumes "state (game w) = ''game''" and "index (levels (game w)) (lvl (game w)) = None"
  shows "render w = Threw TypeError (emit background w)"
  using assms by (simp add: render_def Let_def)

lemma render_start:
  assumes "state (game w) = ''start''"
  shows "render w = Done (emit (background @ SelectorRender (selector (game w)) #
     map (\<lambda>k. DrawImage (Resources_get (sprite_chr (characters (selector (game w)) ! k))) (int k * 101 + 50) (3 * 83 - 20))
            [0..<length (characters (selector (game w)))] @
          [Font ''bold 20pt Calibri'',
           TextAlign ''center'',
           FillStyle ''black'',
           FillText ''Select Your Heroine!'' 252 100,
           Font ''bold 14pt Calibri'',
           FillText ''Press Space or Enter to Begin'' 252 160]) w)"
  using assms by (simp add: render_def Let_def draw_characters_emit emit_emit)

lemma render_win:
  assumes "state (game w) = ''win''"
  shows "render w = Done (emit (background @ 
          [DrawImage (Resources_get (sprite (player (game w)))) (101 + 50) (3 * 83 - 20),
           DrawImage (Resources_get ''images/char-boy.png'') (202 + 50) (3 * 83 - 20),
           DrawImage (Resources_get ''images/Heart.png'') (151 + 50) (3 * 83 - 20),
           Font ''bold 20pt Calibri'',
           TextAlign ''center'',
           FillStyle ''black'',
           FillText ''You Win!'' 252 100,
           Font ''bold 14pt Calibri'',
           FillText ''Press Space or Enter to Restart'' 252 160]) w)"
  using assms by (simp add: render_def Let_def emit_emit)

lemma render_over:
  assumes "state (game w) = ''over''"
  shows "render w = Done (emit (background @ 
          [Font ''bold 20pt Calibri'',
           TextAlign ''center'',
           FillStyle ''black'',
           FillText ''Game Over!'' 252 100,
           Font ''bold 14pt Calibri'',
           FillText ''Press Space or Enter to Restart'' 252 160]) w)"
  using assms by (simp add: render_def Let_def emit_emit)

lemma render_other:
  assumes "state (game w) \<noteq> ''game''" "state (game w) \<noteq> ''start''" "state (game w) \<noteq> ''win''" "state (game w) \<noteq> ''over''"
  shows "render w = Done (emit background w)"
  using assms by (simp add: render_def Let_def)

lemma render_log: "final (render w) = emit (added w (render w)) w"
proof -
  consider (game_ok) level where "state (game w) = ''game''"
      "index (levels (game w)) (lvl (game w)) = Some level"
    | (game_undef) "state (game w) = ''game''" "index (levels (game w)) (lvl (game w)) = None"
    | (start) "state (game w) = ''start''"
    | (win) "state (game w) = ''win''"
    | (over) "state (game w) = ''over''"
    | (other) "state (game w) \<noteq> ''game''" "state (game w) \<noteq> ''start''"
        "state (game w) \<noteq> ''win''" "state (game w) \<noteq> ''over''"
    by (cases "index (levels (game w)) (lvl (game w))") auto
  then show ?thesis
  proof cases
    case game_ok
    then show ?thesis by (simp add: render_game)
  next
    case game_undef
    then show ?thesis by (simp add: render_game_undefined)
  next
    case start
    then show ?thesis by (simp add: render_start)
  next
    case win
    then show ?thesis by (simp add: render_win)
  next
    case over
    then show ?thesis by (simp add: render_over)
  next
    case other
    then show ?thesis by (simp add: render_other)
  qed
qed

lemma take_background: "take 4 (background @ es) = background" "take 4 background = background"
  by (simp_all add: background_def)

lemma render_begins: "take 4 (added w (render w)) = background"
proof -
  consider (game_ok) level where "state (game w) = ''game''"
      "index (levels (game w)) (lvl (game w)) = Some level"
    | (game_undef) "state (game w) = ''game''" "index (levels (game w)) (lvl (game w)) = None"
    | (start) "state (game w) = ''start''"
    | (win) "state (game w) = ''win''"
    | (over) "state (game w) = ''over''"
    | (other) "state (game w) \<noteq> ''game''" "state (game w) \<noteq> ''start''"
        "state (game w) \<noteq> ''win''" "state (game w) \<noteq> ''over''"
    by (cases "index (levels (game w)) (lvl (game w))") auto
  then show ?thesis
  proof cases
    case game_ok
    then show ?thesis by (simp add: render_game take_background del: take_append)
  next
    case game_undef
    then show ?thesis by (simp add: render_game_undefined take_background del: take_append)
  next
    case start
    then show ?thesis by (simp add: render_start take_background del: take_append)
  next
    case win
    then show ?thesis by (simp add: render_win take_background del: take_append)
  next
    case over
    then show ?thesis by (simp add: render_over take_background del: take_append)
  next
    case other
    then show ?thesis by (simp add: render_other take_background del: take_append)
  qed
qed

subsection \<open>What \<^verbatim>\<open>updateEntities\<close> does\<close>

lemma updateEntities_game:
  assumes "state (game w) = ''game''"
    and "index (levels (game w)) (lvl (game w)) = Some level"
  shows "updateEntities app dt w =
    Done (emit (map (EnemyUpdate dt) (enemies level) @ [PlayerUpdate (player (game w))])
      (w\<lparr>game := (game w)\<lparr>
          levels := (levels (game w))[nat (lvl (game w)) :=
            level\<lparr>enemies := map (Enemy_update app dt) (enemies level)\<rparr>],
          player := Player_update app (player (game w))\<rparr>\<rparr>))"
  using assms by (simp add: updateEntities_def forEach_update_map Let_def emit_def)

lemma updateEntities_game_undefined:
  assumes "state (game w) = ''game''"
    and "index (levels (game w)) (lvl (game w)) = None"
  shows "updateEntities app dt w = Threw TypeError w"
  using assms by (simp add: updateEntities_def)

lemma updateEntities_idle:
  assumes "state (game w) \<noteq> ''game''"
  shows "updateEntities app dt w = Done w"
  using assms by (simp add: updateEntities_def)

lemma index_update:
  "index (xs[k := y]) i =
     (if index xs i = None then None else if nat i = k then Some y else index xs i)"
  by (auto simp: index_def)

lemma added_Done_emit': "events w' = events w \<Longrightarrow> added w (Done (emit es w')) = es"
  by (simp add: added_def)

lemma render_game_texts:
  assumes "state (game w) = ''game''"
    and "index (levels (game w)) (lvl (game w)) = Some level"
  shows "texts (added w (render w)) =
    [''Lives: '' @ toString (lives (game w)), ''Level: '' @ toString (lvl (game w)) @ ''1'']"
  using assms by (simp add: render_game texts_append background_def toString_digit)

subsection \<open>One frame\<close>

lemma added_eq: "events (final r) = events w @ es \<Longrightarrow> added w r = es"
  by (simp add: added_def)

lemma update_frame:
  "events (final (update app dt w)) = events w @ added w (update app dt w) \<and>
   passes (added w (update app dt w)) = [] \<and>
   lastTime (final (update app dt w)) = lastTime w"
proof (cases "state (game w) = ''game''")
  case True
  show ?thesis
  proof (cases "index (levels (game w)) (lvl (game w))")
    case None
    with True show ?thesis
      by (simp add: update_def updateEntities_game_undefined added_def)
  next
    case (Some level)
    with True show ?thesis
      by (simp add: update_def updateEntities_game added_Done_emit' passes_append)
  qed
next
  case False
  then show ?thesis
    by (simp add: update_def updateEntities_idle added_def)
qed

lemma render_passes: "passes (added w (render w)) = []"
proof -
  consider (game_ok) level where "state (game w) = ''game''"
      "index (levels (game w)) (lvl (game w)) = Some level"
    | (game_undef) "state (game w) = ''game''" "index (levels (game w)) (lvl (game w)) = None"
    | (start) "state (game w) = ''start''"
    | (win) "state (game w) = ''win''"
    | (over) "state (game w) = ''over''"
    | (other) "state (game w) \<noteq> ''game''" "state (game w) \<noteq> ''start''"
        "state (game w) \<noteq> ''win''" "state (game w) \<noteq> ''over''"
    by (cases "index (levels (game w)) (lvl (game w))") auto
  then show ?thesis
  proof cases
    case game_ok
    then show ?thesis by (simp add: render_game passes_append background_def)
  next
    case game_undef
    then show ?thesis by (simp add: render_game_undefined background_def)
  next
    case start
    then show ?thesis by (simp add: render_start passes_append background_def)
  next
    case win
    then show ?thesis by (simp add: render_win passes_append background_def)
  next
    case over
    then show ?thesis by (simp add: render_over passes_append background_def)
  next
    case other
    then show ?thesis by (simp add: render_other background_def)
  qed
qed

lemma render_frame:
  "events (final (render w)) = events w @ added w (render w) \<and>
   lastTime (final (render w)) = lastTime w"
  by (simp add: render_log [of w])

text \<open>
  One call of \<^verbatim>\<open>main\<close>: when it returns, the clock holds \<open>now\<close> and the calls
  made are one \<^verbatim>\<open>update\<close> and then one \<^verbatim>\<open>render\<close>; when it throws, the clock is
  the one it was.
\<close>

lemma main_frame:
  "(thrown (main fdiv app now w) = None \<longrightarrow>
      lastTime (final (main fdiv app now w)) = now \<and>
      (\<exists>es. events (final (main fdiv app now w)) = events w @ es \<and>
        passes es = [CallUpdate (fdiv (real_of_int (now - lastTime w)) 1000), CallRender])) \<and>
   (thrown (main fdiv app now w) \<noteq> None \<longrightarrow>
      lastTime (final (main fdiv app now w)) = lastTime w)"
proof -
  let ?dt = "fdiv (real_of_int (now - lastTime w)) 1000"
  let ?w0 = "emit [CallUpdate ?dt] w"
  note u = update_frame [of app ?dt ?w0]
  show ?thesis
  proof (cases "update app ?dt ?w0")
    case (Threw e w1)
    with u show ?thesis
      by (simp add: main_def Let_def and_then_def)
  next
    case (Done w1)
    with u have w1: "events w1 = events w @ [CallUpdate ?dt] @ added ?w0 (update app ?dt ?w0)"
      "passes (added ?w0 (update app ?dt ?w0)) = []" "lastTime w1 = lastTime w"
      by simp_all
    let ?w1 = "emit [CallRender] w1"
    note r = render_frame [of ?w1] render_passes [of ?w1]
    show ?thesis
    proof (cases "render ?w1")
      case (Threw e w2)
      with Done r w1 show ?thesis
        by (simp add: main_def Let_def and_then_def)
    next
      case Done2: (Done w2)
      let ?es = "[CallUpdate ?dt] @ added ?w0 (update app ?dt ?w0) @ [CallRender] @
        added ?w1 (render ?w1) @ [RequestAnimationFrame]"
      from Done Done2 have m: "main fdiv app now w =
          Done (emit [RequestAnimationFrame] (w2\<lparr>lastTime := now\<rparr>))"
        by (simp add: main_def Let_def and_then_def)
      from Done2 r w1 have "events (final (main fdiv app now w)) = events w @ ?es \<and>
          passes ?es = [CallUpdate ?dt, CallRender]"
        by (simp add: m passes_append)
      then have "\<exists>es. events (final (main fdiv app now w)) = events w @ es \<and>
          passes es = [CallUpdate ?dt, CallRender]" ..
      then show ?thesis
        by (simp add: m)
    qed
  qed
qed

subsection \<open>Worlds with another level index\<close>

lemma relevel_simps [simp]:
  "state (game (relevel i ls w)) = state (game w)"
  "lives (game (relevel i ls w)) = lives (game w)"
  "player (game (relevel i ls w)) = player (game w)"
  "selector (game (relevel i ls w)) = selector (game w)"
  "lvl (game (relevel i ls w)) = i"
  "levels (game (relevel i ls w)) = ls"
  "events (relevel i ls w) = events w"
  "lastTime (relevel i ls w) = lastTime w"
  by (simp_all add: relevel_def)

lemma render_idle_relevel:
  assumes "state (game w) \<noteq> ''game''"
  shows "thrown (render (relevel i ls w)) = None \<and>
    added (relevel i ls w) (render (relevel i ls w)) = added w (render w)"
proof -
  consider (start) "state (game w) = ''start''"
    | (win) "state (game w) = ''win''"
    | (over) "state (game w) = ''over''"
    | (other) "state (game w) \<noteq> ''game''" "state (game w) \<noteq> ''start''"
        "state (game w) \<noteq> ''win''" "state (game w) \<noteq> ''over''"
    using assms by auto
  then show ?thesis
  proof cases
    case start
    then show ?thesis by (simp add: render_start)
  next
    case win
    then show ?thesis by (simp add: render_win)
  next
    case over
    then show ?thesis by (simp add: render_over)
  next
    case other
    then show ?thesis by (simp add: render_other)
  qed
qed

section \<open>The claims\<close>

subsection \<open>Status text of the running game\<close>

text \<open>
  C1. In the state \<^verbatim>\<open>"game"\<close> with \<open>lvl = 2\<close> and \<open>lives = 3\<close>, the claim expects
  the overlays \<^verbatim>\<open>"Lives: 3"\<close> and \<^verbatim>\<open>"Level: 3"\<close>. The source evaluates
  \<^verbatim>\<open>"Level: " + game.lvl + 1\<close> from the left, so the number \<open>1\<close> is appended as a
  digit instead of being added: one call of \<^verbatim>\<open>render\<close> draws exactly the two texts
  \<^verbatim>\<open>"Lives: 3"\<close> and \<^verbatim>\<open>"Level: 21"\<close>.
\<close>

theorem render_game_status_texts:
  "texts (added (demo_world ''game'' 2) (render (demo_world ''game'' 2))) =
     [''Lives: 3'', ''Level: 21'']"
  by (simp add: render_game_texts [where level = "\<lparr>enemies = [0, 50]\<rparr>"]
        demo_world_def index_def toString_digit)

subsection \<open>The win screen\<close>

text \<open>
  C2, as amended. In the state \<^verbatim>\<open>"win"\<close>, one call of \<^verbatim>\<open>render\<close> draws exactly
  three sprites, all at the vertical offset \<open>229\<close>: the player's sprite at the horizontal
  offset \<open>151\<close>, \<^verbatim>\<open>char-boy.png\<close> at \<open>252\<close> and \<^verbatim>\<open>Heart.png\<close> at \<open>201\<close>, in
  this order. Nothing of the game object but the player's sprite identifier occurs in
  the result.
\<close>

theorem render_win_sprites:
  assumes "state (game w) = ''win''"
  shows "sprites (added w (render w)) =
    [(Resources_get (sprite (player (game w))), 151, 229),
     (Resources_get ''images/char-boy.png'', 252, 229),
     (Resources_get ''images/Heart.png'', 201, 229)]"
  using assms by (simp add: render_win sprites_append background_def)

theorem render_win_sprites_witness:
  "state (game (demo_world ''win'' 0)) = ''win'' \<and>
   sprites (added (demo_world ''win'' 0) (render (demo_world ''win'' 0))) =
    [(Resources_get ''images/char-cat-girl.png'', 151, 229),
     (Resources_get ''images/char-boy.png'', 252, 229),
     (Resources_get ''images/Heart.png'', 201, 229)]"
  using render_win_sprites [of "demo_world ''win'' 0"] by (simp add: demo_world_def)

text \<open>
  C2, as stated, fails: the horizontal offsets drawn are not \<open>151\<close>, \<open>202\<close> and
  \<open>253\<close>, in whatever order they are taken.
\<close>

theorem render_win_offsets_counterexample:
  "set (map (\<lambda>(im, x, y). x)
      (sprites (added (demo_world ''win'' 0) (render (demo_world ''win'' 0)))))
     \<noteq> {151, 202, 253}"
proof -
  have "state (game (demo_world ''win'' 0 :: (real, nat) world)) = ''win''"
    by (simp add: demo_world_def)
  then have "set (map (\<lambda>(im, x, y). x)
      (sprites (added (demo_world ''win'' 0 :: (real, nat) world)
         (render (demo_world ''win'' 0))))) = {151, 252, 201}"
    by (simp add: render_win sprites_append background_def)
  moreover have "{151, 252, 201} \<noteq> {151, 202, 253 :: int}"
    by (simp add: set_eq_iff) (rule exI [of _ 252], simp)
  ultimately show ?thesis by simp
qed

subsection \<open>Updating the entities\<close>

text \<open>
  C3, as amended. In the state \<^verbatim>\<open>"game"\<close>, when \<open>lvl\<close> is an index of
  \<^verbatim>\<open>game.levels\<close>, so that the current level \<^verbatim>\<open>game.levels[game.lvl]\<close> is some
  \<open>level\<close>, one call of \<^verbatim>\<open>update(dt)\<close> returns normally and makes exactly these
  calls: \<^verbatim>\<open>update(dt)\<close> on each enemy of the level, once, with the same \<open>dt\<close>, in
  the order of the array, and then \<^verbatim>\<open>update()\<close> on the player, once, without
  \<open>dt\<close>. Afterwards each enemy of the level and the player are what their methods
  made of them.
\<close>

theorem update_game_calls:
  assumes "state (game w) = ''game''"
    and "index (levels (game w)) (lvl (game w)) = Some level"
  shows "thrown (update app dt w) = None \<and>
    added w (update app dt w) =
      map (EnemyUpdate dt) (enemies level) @ [PlayerUpdate (player (game w))] \<and>
    index (levels (game (final (update app dt w)))) (lvl (game w)) =
      Some (level\<lparr>enemies := map (Enemy_update app dt) (enemies level)\<rparr>) \<and>
    player (game (final (update app dt w))) = Player_update app (player (game w))"
  using assms
  by (simp add: update_def updateEntities_game added_Done_emit' index_update)

theorem update_game_calls_witness:
  "state (game (demo_world ''game'' 2)) = ''game'' \<and>
   index (levels (game (demo_world ''game'' 2))) (lvl (game (demo_world ''game'' 2))) =
     Some \<lparr>enemies = [0, 50]\<rparr> \<and>
   thrown (update demo_app (1 / 2) (demo_world ''game'' 2)) = None \<and>
   added (demo_world ''game'' 2) (update demo_app (1 / 2) (demo_world ''game'' 2)) =
     [EnemyUpdate (1 / 2) 0, EnemyUpdate (1 / 2) 50,
      PlayerUpdate \<lparr>sprite = ''images/char-cat-girl.png'', props = 0\<rparr>] \<and>
   index (levels (game (final (update demo_app (1 / 2) (demo_world ''game'' 2))))) 2 =
     Some \<lparr>enemies = [50, 100]\<rparr> \<and>
   player (game (final (update demo_app (1 / 2) (demo_world ''game'' 2)))) =
     \<lparr>sprite = ''images/char-cat-girl.png'', props = 1\<rparr>"
proof -
  have s: "state (game (demo_world ''game'' 2 :: (real, nat) world)) = ''game''"
    by (simp add: demo_world_def)
  have i: "index (levels (game (demo_world ''game'' 2 :: (real, nat) world)))
      (lvl (game (demo_world ''game'' 2 :: (real, nat) world))) = Some \<lparr>enemies = [0, 50]\<rparr>"
    by (simp add: demo_world_def index_def)
  from update_game_calls [OF s i, of demo_app "1 / 2"] s i show ?thesis
    by (simp add: demo_world_def demo_app_def)
qed

text \<open>
  C3, as stated for every world in the state \<^verbatim>\<open>"game"\<close>, fails where \<open>lvl\<close> is no
  index of \<^verbatim>\<open>game.levels\<close>: with three levels and \<open>lvl = 5\<close> the read of
  \<^verbatim>\<open>game.levels[game.lvl].enemies\<close> throws, and neither an enemy nor the player is
  updated.
\<close>

theorem update_undefined_level_counterexample:
  "state (game (demo_world ''game'' 5)) = ''game'' \<and>
   thrown (update demo_app (1 / 2) (demo_world ''game'' 5)) = Some TypeError \<and>
   added (demo_world ''game'' 5) (update demo_app (1 / 2) (demo_world ''game'' 5)) = []"
  by (simp add: update_def updateEntities_def index_def added_def demo_world_def)

text \<open>
  C4. In every state other than \<^verbatim>\<open>"game"\<close>, \<^verbatim>\<open>update(dt)\<close> returns normally and
  leaves the world as it was: no enemy, no level, not the player, not the log. This
  holds for every \<open>dt\<close>, so for every \<open>dt \<ge> 0\<close>.
\<close>

theorem update_idle:
  assumes "state (game w) \<noteq> ''game''"
  shows "update app dt w = Done w"
  using assms by (simp add: update_def updateEntities_idle)

theorem update_idle_witness:
  "state (game (demo_world ''over'' 2)) \<noteq> ''game'' \<and>
   update demo_app (1 / 2) (demo_world ''over'' 2) = Done (demo_world ''over'' 2)"
  using update_idle [of "demo_world ''over'' 2" demo_app "1 / 2"]
  by (simp add: demo_world_def)

subsection \<open>The background\<close>

text \<open>
  C6. Whatever the state, known or not, and also when the frame ends in an exception,
  the calls made by \<^verbatim>\<open>render\<close> begin with the fill of the whole canvas, the
  rectangle \<open>(0, 0, 505, 606)\<close> in white; everything else comes after it.
\<close>

theorem render_begins_with_background:
  "\<exists>rest. events (final (render w)) =
     events w @ [BeginPath, Rect 0 0 505 606, FillStyle ''white'', Fill] @ rest"
proof -
  have "added w (render w) = take 4 (added w (render w)) @ drop 4 (added w (render w))"
    by simp
  then have "added w (render w) = background @ drop 4 (added w (render w))"
    by (simp only: render_begins)
  then have "events (final (render w)) = events w @ background @ drop 4 (added w (render w))"
    using render_log [of w] by simp
  then show ?thesis
    unfolding background_def by (rule exI)
qed

subsection \<open>The selection screen\<close>

text \<open>
  C7. In the state \<^verbatim>\<open>"start"\<close> with five characters in the selector, one call of
  \<^verbatim>\<open>render\<close> draws exactly five sprites: for \<open>i\<close> from \<open>0\<close> to \<open>4\<close>, in this order,
  the sprite of character \<open>i\<close> at the horizontal offset \<open>i * 101 + 50\<close> and the
  vertical offset \<open>3 * 83 - 20\<close>.
\<close>

theorem render_start_sprites:
  assumes "state (game w) = ''start''"
    and "length (characters (selector (game w))) = 5"
  shows "sprites (added w (render w)) =
    map (\<lambda>i. (Resources_get (sprite_chr (characters (selector (game w)) ! i)),
               int i * 101 + 50, 3 * 83 - 20)) [0..<5]"
  using assms by (simp add: render_start sprites_append background_def)

theorem render_start_sprites_witness:
  "state (game (demo_world ''start'' 0)) = ''start'' \<and>
   length (characters (selector (game (demo_world ''start'' 0)))) = 5 \<and>
   sprites (added (demo_world ''start'' 0) (render (demo_world ''start'' 0))) =
     [(Resources_get ''images/char-boy.png'', 50, 229),
      (Resources_get ''images/char-cat-girl.png'', 151, 229),
      (Resources_get ''images/char-horn-girl.png'', 252, 229),
      (Resources_get ''images/char-pink-girl.png'', 353, 229),
      (Resources_get ''images/char-princess-girl.png'', 454, 229)]"
  using render_start_sprites [of "demo_world ''start'' 0"]
  by (simp add: demo_world_def upt_rec)

subsection \<open>States the dispatch does not know\<close>

text \<open>
  C8. When the state is none of \<^verbatim>\<open>"start"\<close>, \<^verbatim>\<open>"game"\<close>, \<^verbatim>\<open>"win"\<close> and
  \<^verbatim>\<open>"over"\<close>, \<^verbatim>\<open>render\<close> returns normally having done nothing but the fill of the
  background.
\<close>

theorem render_unknown_state:
  assumes "state (game w) \<notin> {''start'', ''game'', ''win'', ''over''}"
  shows "render w =
    Done (w\<lparr>events := events w @ [BeginPath, Rect 0 0 505 606, FillStyle ''white'', Fill]\<rparr>)"
  using assms by (simp add: render_other background_def emit_def)

theorem render_unknown_state_witness:
  "state (game (demo_world ''paused'' 0)) \<notin> {''start'', ''game'', ''win'', ''over''} \<and>
   render (demo_world ''paused'' 0) =
     Done ((demo_world ''paused'' 0)
       \<lparr>events := [BeginPath, Rect 0 0 505 606, FillStyle ''white'', Fill]\<rparr>)"
  using render_unknown_state [of "demo_world ''paused'' 0"] by (simp add: demo_world_def)

subsection \<open>The renderer only reads the game\<close>

text \<open>
  C9. After one call of \<^verbatim>\<open>render\<close>, however it ends, the game object is the one it
  was before: \<open>state\<close>, \<open>lvl\<close>, \<open>lives\<close>, \<open>player\<close>, \<open>levels\<close> and \<open>selector\<close> are
  unchanged, and so is the clock.
\<close>

theorem render_leaves_game:
  "game (final (render w)) = game w \<and> lastTime (final (render w)) = lastTime w"
  by (simp add: render_log)

subsection \<open>Start-up\<close>

text \<open>
  C5, as amended. \<^verbatim>\<open>init\<close> makes the first call of \<^verbatim>\<open>main\<close> itself. After
  \<^verbatim>\<open>init\<close>: when the value of \<^verbatim>\<open>Date.now()\<close> sampled by that call is not below
  the one sampled by \<^verbatim>\<open>init\<close>, the clock \<^verbatim>\<open>lastTime\<close> is at least the value
  sampled by \<^verbatim>\<open>init\<close>; and when the frame has not thrown, the clock holds the value
  sampled by the call of \<^verbatim>\<open>main\<close> and exactly one \<^verbatim>\<open>update\<close> followed by exactly
  one \<^verbatim>\<open>render\<close> has been called, the update with the quotient of the elapsed
  milliseconds by \<open>1000\<close>.
\<close>

theorem init_runs_one_frame:
  "(t0 \<le> now \<longrightarrow> t0 \<le> lastTime (final (init fdiv app t0 now w))) \<and>
   (thrown (init fdiv app t0 now w) = None \<longrightarrow>
      lastTime (final (init fdiv app t0 now w)) = now \<and>
      passes (added w (init fdiv app t0 now w)) =
        [CallUpdate (fdiv (real_of_int (now - t0)) 1000), CallRender])"
proof -
  let ?w3 = "(emit [ResetGame] (emit [Css ''#game-area'' ''display'' ''block'']
      (w\<lparr>lastTime := t0\<rparr>)))\<lparr>game := resetGame app (game w)\<rparr>"
  have i: "init fdiv app t0 now w = main fdiv app now ?w3"
    by (simp add: init_def Let_def)
  have t: "lastTime ?w3 = t0"
    by simp
  note m = main_frame [of fdiv app now ?w3, unfolded t, folded i]
  show ?thesis
  proof (intro conjI impI)
    assume "t0 \<le> now"
    with m show "t0 \<le> lastTime (final (init fdiv app t0 now w))"
      by (cases "thrown (init fdiv app t0 now w) = None") simp_all
  next
    assume "thrown (init fdiv app t0 now w) = None"
    with m show "lastTime (final (init fdiv app t0 now w)) = now"
      by simp
  next
    assume "thrown (init fdiv app t0 now w) = None"
    with m obtain es where
      es: "events (final (init fdiv app t0 now w)) = events ?w3 @ es"
        "passes es = [CallUpdate (fdiv (real_of_int (now - t0)) 1000), CallRender]"
      by blast
    from es(1) have "events (final (init fdiv app t0 now w)) =
        events w @ ([Css ''#game-area'' ''display'' ''block'', ResetGame] @ es)"
      by simp
    then have "added w (init fdiv app t0 now w) =
        [Css ''#game-area'' ''display'' ''block'', ResetGame] @ es"
      by (rule added_eq)
    with es(2) show "passes (added w (init fdiv app t0 now w)) =
        [CallUpdate (fdiv (real_of_int (now - t0)) 1000), CallRender]"
      by (simp add: passes_append)
  qed
qed

theorem init_runs_one_frame_witness:
  "(1000::int) \<le> 1500 \<and>
   thrown (init demo_fdiv demo_app 1000 1500 (demo_world ''over'' 7)) = None \<and>
   1000 \<le> lastTime (final (init demo_fdiv demo_app 1000 1500 (demo_world ''over'' 7))) \<and>
   lastTime (final (init demo_fdiv demo_app 1000 1500 (demo_world ''over'' 7))) = 1500 \<and>
   passes (added (demo_world ''over'' 7)
      (init demo_fdiv demo_app 1000 1500 (demo_world ''over'' 7))) =
     [CallUpdate (1 / 2), CallRender]"
proof -
  have ok: "thrown (init demo_fdiv demo_app 1000 1500 (demo_world ''over'' 7)) = None"
    by (simp add: init_def main_def Let_def and_then_def update_def updateEntities_def
        render_start demo_app_def demo_world_def)
  from init_runs_one_frame [of 1000 1500 demo_fdiv demo_app "demo_world ''over'' 7"] ok
  show ?thesis
    by (simp add: demo_fdiv_def)
qed

text \<open>
  C5, as stated, fails in two ways. When the wall clock is set back between the two
  samples, \<open>1000\<close> sampled by \<^verbatim>\<open>init\<close> and \<open>500\<close> by \<^verbatim>\<open>main\<close>, the clock ends
  below the time of \<^verbatim>\<open>init\<close>. When the frame throws, here because
  \<^verbatim>\<open>resetGame\<close> has left the state \<^verbatim>\<open>"game"\<close> without a level, \<^verbatim>\<open>update\<close> is
  called and \<^verbatim>\<open>render\<close> is not, and the clock keeps the time of \<^verbatim>\<open>init\<close>.
\<close>

theorem init_frame_counterexample:
  "lastTime (final (init demo_fdiv demo_app 1000 500 (demo_world ''over'' 0))) < 1000 \<and>
   thrown (init demo_fdiv bare_app 1000 1500 (demo_world ''over'' 0)) = Some TypeError \<and>
   lastTime (final (init demo_fdiv bare_app 1000 1500 (demo_world ''over'' 0))) = 1000 \<and>
   passes (added (demo_world ''over'' 0)
      (init demo_fdiv bare_app 1000 1500 (demo_world ''over'' 0))) = [CallUpdate (1 / 2)]"
proof (intro conjI)
  show "lastTime (final (init demo_fdiv demo_app 1000 500 (demo_world ''over'' 0))) < 1000"
    by (simp add: init_def main_def Let_def and_then_def update_def updateEntities_def
        render_start demo_app_def demo_world_def)
  have b: "init demo_fdiv bare_app 1000 1500 (demo_world ''over'' 0) =
    Threw TypeError (emit [Css ''#game-area'' ''display'' ''block'', ResetGame, CallUpdate (1 / 2)]
      ((demo_world ''over'' 0)\<lparr>lastTime := 1000,
         game := resetGame bare_app (game (demo_world ''over'' 0))\<rparr>))"
    by (simp add: init_def main_def Let_def and_then_def update_def updateEntities_def
        index_def bare_app_def demo_world_def demo_fdiv_def emit_def)
  show "thrown (init demo_fdiv bare_app 1000 1500 (demo_world ''over'' 0)) = Some TypeError"
    by (simp add: b)
  show "lastTime (final (init demo_fdiv bare_app 1000 1500 (demo_world ''over'' 0))) = 1000"
    by (simp add: b)
  have e: "events (demo_world ''over'' 0 :: (real, nat) world) = []"
    by (simp add: demo_world_def)
  show "passes (added (demo_world ''over'' 0)
      (init demo_fdiv bare_app 1000 1500 (demo_world ''over'' 0))) = [CallUpdate (1 / 2)]"
    by (simp add: b added_def e)
qed

subsection \<open>Reading the current level\<close>

text \<open>
  C10. In the state \<^verbatim>\<open>"game"\<close> both \<^verbatim>\<open>update(dt)\<close> and \<^verbatim>\<open>render()\<close> read
  \<^verbatim>\<open>game.levels[game.lvl]\<close>: when \<open>0 \<le> lvl < length levels\<close> neither throws, the
  enemies updated are those of that level and the level rendered is that level; when
  \<open>lvl\<close> is out of range both throw the \<^verbatim>\<open>TypeError\<close>. In any other state neither
  reads it: with any other level index \<open>i\<close> and any other levels \<open>ls\<close>, valid or not,
  neither throws and both make the same calls as before.
\<close>

theorem levels_index_guarded:
  "(state (game w) = ''game'' \<and> 0 \<le> lvl (game w) \<and> lvl (game w) < int (length (levels (game w))) \<longrightarrow>
      thrown (update app dt w) = None \<and> thrown (render w) = None \<and>
      added w (update app dt w) =
        map (EnemyUpdate dt) (enemies (levels (game w) ! nat (lvl (game w)))) @
        [PlayerUpdate (player (game w))] \<and>
      LevelRender (levels (game w) ! nat (lvl (game w))) \<in> set (added w (render w))) \<and>
   (state (game w) = ''game'' \<and> \<not> (0 \<le> lvl (game w) \<and> lvl (game w) < int (length (levels (game w)))) \<longrightarrow>
      thrown (update app dt w) = Some TypeError \<and> thrown (render w) = Some TypeError) \<and>
   (state (game w) \<noteq> ''game'' \<longrightarrow>
      thrown (update app dt (relevel i ls w)) = None \<and>
      added (relevel i ls w) (update app dt (relevel i ls w)) = added w (update app dt w) \<and>
      thrown (render (relevel i ls w)) = None \<and>
      added (relevel i ls w) (render (relevel i ls w)) = added w (render w))"
proof (intro conjI impI)
  assume a: "state (game w) = ''game'' \<and> 0 \<le> lvl (game w) \<and> lvl (game w) < int (length (levels (game w)))"
  then have s: "state (game w) = ''game''"
    and i: "index (levels (game w)) (lvl (game w)) = Some (levels (game w) ! nat (lvl (game w)))"
    by (simp_all add: index_def)
  show "thrown (update app dt w) = None"
    by (simp add: update_def updateEntities_game [OF s i])
  show "thrown (render w) = None"
    by (simp add: render_game [OF s i])
  show "added w (update app dt w) =
        map (EnemyUpdate dt) (enemies (levels (game w) ! nat (lvl (game w)))) @
        [PlayerUpdate (player (game w))]"
    by (simp add: update_def updateEntities_game [OF s i] added_Done_emit')
  show "LevelRender (levels (game w) ! nat (lvl (game w))) \<in> set (added w (render w))"
    by (simp add: render_game [OF s i])
next
  assume a: "state (game w) = ''game'' \<and> \<not> (0 \<le> lvl (game w) \<and> lvl (game w) < int (length (levels (game w))))"
  then have s: "state (game w) = ''game''"
    and i: "index (levels (game w)) (lvl (game w)) = None"
    by (simp_all add: index_def)
  show "thrown (update app dt w) = Some TypeError"
    by (simp add: update_def updateEntities_game_undefined [OF s i])
  show "thrown (render w) = Some TypeError"
    by (simp add: render_game_undefined [OF s i])
next
  assume s: "state (game w) \<noteq> ''game''"
  show "thrown (update app dt (relevel i ls w)) = None"
    using s by (simp add: update_def updateEntities_idle)
  show "added (relevel i ls w) (update app dt (relevel i ls w)) = added w (update app dt w)"
    using s by (simp add: update_def updateEntities_idle added_def)
  show "thrown (render (relevel i ls w)) = None"
    using render_idle_relevel [OF s] by simp
  show "added (relevel i ls w) (render (relevel i ls w)) = added w (render w)"
    using render_idle_relevel [OF s] by simp
qed

theorem levels_index_guarded_witness:
  "(state (game (demo_world ''game'' 2)) = ''game'' \<and> (0::int) \<le> 2 \<and>
      2 < int (length (levels (game (demo_world ''game'' 2)))) \<and>
      thrown (update demo_app (1 / 2) (demo_world ''game'' 2)) = None \<and>
      thrown (render (demo_world ''game'' 2)) = None \<and>
      added (demo_world ''game'' 2) (update demo_app (1 / 2) (demo_world ''game'' 2)) =
        [EnemyUpdate (1 / 2) 0, EnemyUpdate (1 / 2) 50,
         PlayerUpdate \<lparr>sprite = ''images/char-cat-girl.png'', props = 0\<rparr>] \<and>
      LevelRender \<lparr>enemies = [0, 50]\<rparr> \<in>
        set (added (demo_world ''game'' 2) (render (demo_world ''game'' 2)))) \<and>
   (state (game (demo_world ''game'' 3)) = ''game'' \<and>
      \<not> (3 < int (length (levels (game (demo_world ''game'' 3))))) \<and>
      thrown (update demo_app (1 / 2) (demo_world ''game'' 3)) = Some TypeError \<and>
      thrown (render (demo_world ''game'' 3)) = Some TypeError) \<and>
   (state (game (demo_world ''over'' 0)) \<noteq> ''game'' \<and>
      thrown (update demo_app (1 / 2) (relevel (- 1) [] (demo_world ''over'' 0))) = None \<and>
      thrown (render (relevel (- 1) [] (demo_world ''over'' 0))) = None \<and>
      added (relevel (- 1) [] (demo_world ''over'' 0))
        (render (relevel (- 1) [] (demo_world ''over'' 0))) =
      added (demo_world ''over'' 0) (render (demo_world ''over'' 0)))"
proof -
  have g: "state (game (demo_world ''game'' l :: (real, nat) world)) = ''game''"
    "lvl (game (demo_world ''game'' l :: (real, nat) world)) = l"
    "length (levels (game (demo_world s l :: (real, nat) world))) = 3"
    "levels (game (demo_world s 2 :: (real, nat) world)) ! 2 = \<lparr>enemies = [0, 50]\<rparr>"
    "player (game (demo_world s l :: (real, nat) world)) = \<lparr>sprite = ''images/char-cat-girl.png'', props = 0\<rparr>"
    "state (game (demo_world ''over'' l :: (real, nat) world)) \<noteq> ''game''"
    for s l
    by (simp_all add: demo_world_def)
  from levels_index_guarded [of "demo_world ''game'' 2" demo_app "1 / 2"]
    levels_index_guarded [of "demo_world ''game'' 3" demo_app "1 / 2"]
    levels_index_guarded [of "demo_world ''over'' 0" demo_app "1 / 2" "- 1" "[]"]
  show ?thesis
    by (simp add: g)
qed

end
